theory Spec2Isabelle
  imports Main
begin

section \<open>The bottom drawer of \<^verbatim>\<open>src/bottomDrawer.tsx\<close>\<close>

text \<open>
  The component is a set of event handlers over three pieces of React state
  (\<^verbatim>\<open>modalVisible\<close>, \<^verbatim>\<open>currentDrawerIndex\<close>, \<^verbatim>\<open>keyboardTriggerSource\<close>),
  two refs (\<^verbatim>\<open>lastPosition\<close>, \<^verbatim>\<open>currentIndex\<close>) and the animated value
  \<^verbatim>\<open>animatedHeight\<close>. Each handler is a function from the state before the call to
  the state after it. What a handler asks of the host (starting an animation, calling a
  callback of the caller, \<^verbatim>\<open>console.warn\<close>) is appended to the field \<open>effects\<close>,
  in the order of the calls.

  Conventions of the model:
  \<^item> pixel quantities and indices are JavaScript numbers holding integers, modelled as
    \<open>int\<close>; fractional and non-finite numbers are outside the model;
  \<^item> an array read \<^verbatim>\<open>xs[i]\<close> out of range yields \<^verbatim>\<open>undefined\<close>, and arithmetic on
    \<^verbatim>\<open>undefined\<close> yields \<^verbatim>\<open>NaN\<close>: both are values of \<open>jsval\<close>;
  \<^item> every handler sees the committed React state: the model does not represent a call
    made between a state setter and the re-render that follows it;
  \<^item> the props are the same in every render, so the handlers of the pan responder, which
    are those of the first render, read the same props as all the others;
  \<^item> the animation engine is the host's: the model records which animation was started
    and gives the completion callbacks as functions of their own.
\<close>

subsection \<open>JavaScript values\<close>

datatype jsval = Num int | Undefined | NaN

text \<open>\<^verbatim>\<open>xs[i]\<close> on an array of numbers.\<close>

definition js_index :: "int list \<Rightarrow> int \<Rightarrow> jsval" where
  "js_index xs i = (if 0 \<le> i \<and> i < int (length xs) then Num (xs ! nat i) else Undefined)"

text \<open>\<^verbatim>\<open>a - b\<close>: \<^verbatim>\<open>undefined\<close> converts to \<^verbatim>\<open>NaN\<close>, and \<^verbatim>\<open>NaN\<close> is absorbing.\<close>

fun js_sub :: "jsval \<Rightarrow> jsval \<Rightarrow> jsval" where
  "js_sub (Num a) (Num b) = Num (a - b)"
| "js_sub _ _ = NaN"

subsection \<open>Props, state and effects\<close>

text \<open>A callback supplied by the caller is opaque: it is identified by a tag.\<close>

type_synonym callback = nat

text \<open>
  The props after destructuring (lines 46-72), each default already filled in. The
  props that no handler reads (styles, backdrop, \<^verbatim>\<open>closeOnDragDown\<close>, \<^verbatim>\<open>gestureMode\<close>,
  \<^verbatim>\<open>overDrag\<close>, ...) are left out. \<open>screenHeight\<close> is the constant imported from
  \<^verbatim>\<open>./constants\<close>, a file that is not part of the sources at hand: it is a parameter.
\<close>

record props =
  onClose :: "callback option"
  openDuration :: int
  closeDuration :: int
  onOpen :: "callback option"
  initialHeight :: int
  openOnMount :: bool
  snapPoints :: "int list"
  initialIndex :: int
  enableSnapping :: bool
  safeTopOffset :: int
  screenHeight :: int

datatype easing = EaseOutBack | EaseInEase

text \<open>
  The function handed to \<^verbatim>\<open>.start(...)\<close> of a timing animation; the spring
  animations are started without one.
\<close>

datatype completion = OpenCompletion | CloseCompletion

datatype animation =
    Timing (toValue: jsval) easing int completion
  | Spring (toValue: jsval)

datatype effect = Start animation | Invoke callback | ConsoleWarn string

datatype trigger = Internal | External

record drawer =
  modalVisible :: bool
  currentDrawerIndex :: int
  lastPosition :: jsval
  currentIndex :: int
  keyboardTriggerSource :: "trigger option"
  effects :: "effect list"

datatype error = Error string

datatype outcome = Returned | Threw error

text \<open>
  Modelled from the spec: the type \<^verbatim>\<open>SnapToPositionConfig\<close> is declared in the package
  index, which is not part of the sources at hand. The spec gives the one field the
  handler reads, \<^verbatim>\<open>resetLastPosition\<close>, which may be absent.
\<close>

record SnapToPositionConfig =
  resetLastPosition :: "bool option"

text \<open>The state of the first render (lines 74-80).\<close>

definition initial :: "props \<Rightarrow> drawer" where
  "initial p =
     \<lparr>modalVisible = False,
      currentDrawerIndex = initialIndex p,
      lastPosition = Num (initialHeight p),
      currentIndex = initialIndex p,
      keyboardTriggerSource = None,
      effects = []\<rparr>"

definition emit :: "effect \<Rightarrow> drawer \<Rightarrow> drawer" where
  "emit e s = s\<lparr>effects := effects s @ [e]\<rparr>"

subsection \<open>The handlers\<close>

text \<open>Lines 82-87.\<close>

definition checkIfAvailable :: "props \<Rightarrow> int \<Rightarrow> bool" where
  "checkIfAvailable p index =
     (if \<not> enableSnapping p \<or> int (length (snapPoints p)) \<le> index \<or> index < 0
      then False else True)"

text \<open>
  Lines 89-103. The argument is optional: \<open>None\<close> is a call without it, and the
  default is \<^verbatim>\<open>initialHeight\<close>.
\<close>

definition handleOpen :: "props \<Rightarrow> int option \<Rightarrow> drawer \<Rightarrow> drawer" where
  "handleOpen p arg s =
     (let sheetHeight = (case arg of None \<Rightarrow> initialHeight p | Some h \<Rightarrow> h);
          val = (if enableSnapping p then js_index (snapPoints p) (initialIndex p)
                 else Num sheetHeight)
      in emit (Start (Timing (js_sub (Num (screenHeight p)) val) EaseOutBack
                        (openDuration p) OpenCompletion))
           (s\<lparr>lastPosition := val, modalVisible := True\<rparr>))"

text \<open>The callback given to \<^verbatim>\<open>start\<close> in \<^verbatim>\<open>handleOpen\<close> (lines 98-102).\<close>

definition openCompletion :: "props \<Rightarrow> bool \<Rightarrow> drawer \<Rightarrow> drawer" where
  "openCompletion p finished s =
     (if finished then (case onOpen p of None \<Rightarrow> s | Some cb \<Rightarrow> emit (Invoke cb) s)
      else s)"

text \<open>The mount effect (lines 105-107), run on the state of the first render.\<close>

definition mount :: "props \<Rightarrow> drawer" where
  "mount p = (if openOnMount p then handleOpen p None (initial p) else initial p)"

text \<open>Lines 109-120: \<^verbatim>\<open>handleClose\<close> only starts the animation.\<close>

definition handleClose :: "props \<Rightarrow> drawer \<Rightarrow> drawer" where
  "handleClose p s =
     emit (Start (Timing (Num (screenHeight p)) EaseInEase (closeDuration p) CloseCompletion)) s"

text \<open>
  The callback given to \<^verbatim>\<open>start\<close> in \<^verbatim>\<open>handleClose\<close> (lines 115-119); it does
  not look at \<^verbatim>\<open>finished\<close>.
\<close>

definition closeCompletion :: "props \<Rightarrow> drawer \<Rightarrow> drawer" where
  "closeCompletion p s =
     (let s1 = (case onClose p of None \<Rightarrow> s | Some cb \<Rightarrow> emit (Invoke cb) s)
      in s1\<lparr>modalVisible := False, currentIndex := 0\<rparr>)"

text \<open>Lines 122-133. The \<^verbatim>\<open>throw\<close> comes before every assignment.\<close>

definition handleSnapToIndex :: "props \<Rightarrow> int \<Rightarrow> drawer \<Rightarrow> outcome \<times> drawer" where
  "handleSnapToIndex p index s =
     (if \<not> checkIfAvailable p index
      then (Threw (Error ''Provided index is out of range of snapPoints!''), s)
      else (Returned,
            emit (Start (Spring (js_sub (Num (screenHeight p)) (js_index (snapPoints p) index))))
              (s\<lparr>lastPosition := js_index (snapPoints p) index,
                 currentIndex := index,
                 currentDrawerIndex := index\<rparr>)))"

text \<open>
  Lines 135-152. \<open>None\<close> is a call without \<^verbatim>\<open>config\<close>; the default of
  \<^verbatim>\<open>resetLastPosition\<close> is \<^verbatim>\<open>true\<close>. The function has no \<^verbatim>\<open>throw\<close>: it always
  returns, so its result is the state alone.
\<close>

definition handleSnapToPosition ::
  "props \<Rightarrow> int \<Rightarrow> SnapToPositionConfig option \<Rightarrow> drawer \<Rightarrow> drawer" where
  "handleSnapToPosition p position config s =
     (let reset = (case config of None \<Rightarrow> True
                   | Some c \<Rightarrow> (case resetLastPosition c of None \<Rightarrow> True | Some b \<Rightarrow> b))
      in if \<not> modalVisible s
         then emit (ConsoleWarn ''snapToPosition can be used only when bottom drawer is opened'') s
         else emit (Start (Spring (js_sub (Num (screenHeight p)) (Num position))))
                (if reset then s\<lparr>lastPosition := Num position\<rparr> else s))"

text \<open>Lines 171-175.\<close>

definition findActiveInputInContent :: "drawer \<Rightarrow> bool" where
  "findActiveInputInContent s = False"

text \<open>Lines 159-167, the callback handed to the keyboard hook.\<close>

definition onKeyboardChange :: "bool \<Rightarrow> drawer \<Rightarrow> drawer" where
  "onKeyboardChange isOpen s =
     (if isOpen
      then s\<lparr>keyboardTriggerSource :=
               Some (if findActiveInputInContent s then Internal else External)\<rparr>
      else s\<lparr>keyboardTriggerSource := None\<rparr>)"

text \<open>
  Lines 178-188, the body of the effect. \<^verbatim>\<open>keyboardOpen\<close> is what the hook
  \<^verbatim>\<open>useBottomDrawerKeyboard\<close> returned; the hook is not part of the sources at hand, so
  the flag is a parameter.
\<close>

definition keyboardSnapEffect :: "props \<Rightarrow> bool \<Rightarrow> drawer \<Rightarrow> outcome \<times> drawer" where
  "keyboardSnapEffect p keyboardOpen s =
     (if keyboardOpen
      then (if keyboardTriggerSource s = Some External then handleSnapToIndex p 0 s
            else if keyboardTriggerSource s = Some Internal then handleSnapToIndex p 1 s
            else (Returned, s))
      else (Returned, s))"

text \<open>Lines 193-200.\<close>

definition onPanResponderMove :: "props \<Rightarrow> int \<Rightarrow> drawer \<Rightarrow> outcome \<times> drawer" where
  "onPanResponderMove p dy s =
     (if dy < - safeTopOffset p \<and> checkIfAvailable p (currentIndex s + 1)
      then handleSnapToIndex p (currentIndex s + 1) s
      else if dy > safeTopOffset p \<and> checkIfAvailable p (currentIndex s - 1)
      then handleSnapToIndex p (currentIndex s - 1) s
      else (Returned, s))"

text \<open>Lines 201-206.\<close>

definition onPanResponderRelease :: "props \<Rightarrow> drawer \<Rightarrow> drawer" where
  "onPanResponderRelease p s =
     emit (Start (Spring (js_sub (Num (screenHeight p)) (lastPosition s)))) s"

text \<open>Line 210.\<close>

definition handleIsOpen :: "drawer \<Rightarrow> bool" where
  "handleIsOpen s = modalVisible s"

text \<open>The animations among the effects, in the order they were started.\<close>

fun started :: "effect list \<Rightarrow> animation list" where
  "started [] = []"
| "started (Start a # es) = a # started es"
| "started (_ # es) = started es"

text \<open>A configuration and a state for the examples: three snap points, initial index 1.\<close>

definition example_props :: props where
  "example_props =
     \<lparr>onClose = Some 1, openDuration = 300, closeDuration = 200, onOpen = Some 2,
      initialHeight = 420, openOnMount = True, snapPoints = [100, 300, 500],
      initialIndex = 1, enableSnapping = True, safeTopOffset = 50, screenHeight = 800\<rparr>"

text \<open>The same configuration with snapping switched off.\<close>

definition snapping_off_props :: props where
  "snapping_off_props = example_props\<lparr>enableSnapping := False\<rparr>"

text \<open>The same configuration with a negative safe offset.\<close>

definition negative_offset_props :: props where
  "negative_offset_props = example_props\<lparr>safeTopOffset := - 10\<rparr>"

text \<open>The same configuration with the initial index one past the last snap point.\<close>

definition overshoot_props :: props where
  "overshoot_props = example_props\<lparr>initialIndex := 3\<rparr>"

section \<open>Properties\<close>

lemma started_append: "started (es @ fs) = started es @ started fs"
  by (induction es rule: started.induct) simp_all

lemmas example_defs =
  example_props_def snapping_off_props_def negative_offset_props_def overshoot_props_def
  mount_def initial_def handleOpen_def emit_def js_index_def Let_def

subsection \<open>\<^verbatim>\<open>snapToIndex\<close>\<close>

text \<open>
  C1. For every index \<open>i\<close>, when snapping is disabled, or \<open>i\<close> is negative, or \<open>i\<close> is
  at least the number of snap points, \<^verbatim>\<open>snapToIndex(i)\<close> throws its error and the state
  after the call is the state before it: current index, last position, visibility and
  everything else.
\<close>

theorem snapToIndex_rejects:
  assumes "\<not> enableSnapping p \<or> i < 0 \<or> int (length (snapPoints p)) \<le> i"
  shows "handleSnapToIndex p i s =
           (Threw (Error ''Provided index is out of range of snapPoints!''), s)"
  using assms by (auto simp add: handleSnapToIndex_def checkIfAvailable_def)

theorem snapToIndex_rejects_witness:
  "int (length (snapPoints example_props)) \<le> 3
   \<and> handleSnapToIndex example_props 3 (mount example_props) =
         (Threw (Error ''Provided index is out of range of snapPoints!''),
          mount example_props)
   \<and> (- 1 :: int) < 0
   \<and> handleSnapToIndex example_props (- 1) (mount example_props) =
         (Threw (Error ''Provided index is out of range of snapPoints!''),
          mount example_props)
   \<and> \<not> enableSnapping snapping_off_props
   \<and> handleSnapToIndex snapping_off_props 0 (mount snapping_off_props) =
         (Threw (Error ''Provided index is out of range of snapPoints!''),
          mount snapping_off_props)"
proof -
  have h1: "\<not> enableSnapping example_props \<or> (3::int) < 0
              \<or> int (length (snapPoints example_props)) \<le> 3"
    and h2: "\<not> enableSnapping example_props \<or> (- 1 :: int) < 0
              \<or> int (length (snapPoints example_props)) \<le> - 1"
    and h3: "\<not> enableSnapping snapping_off_props \<or> (0::int) < 0
              \<or> int (length (snapPoints snapping_off_props)) \<le> 0"
    by (simp_all add: example_props_def snapping_off_props_def)
  show ?thesis
    using snapToIndex_rejects [OF h1, of "mount example_props"]
      snapToIndex_rejects [OF h2, of "mount example_props"]
      snapToIndex_rejects [OF h3, of "mount snapping_off_props"]
    by (simp add: example_props_def snapping_off_props_def)
qed

text \<open>
  C2. For every index \<open>i\<close> with \<open>0 \<le> i < length snapPoints\<close> and snapping enabled,
  \<^verbatim>\<open>snapToIndex(i)\<close> returns, the current index (ref and rendered index) is \<open>i\<close>, the
  last position is \<open>snapPoints[i]\<close>, and the one effect is the start of a spring
  animation towards \<open>screenHeight - snapPoints[i]\<close>.
\<close>

theorem snapToIndex_accepts:
  assumes "enableSnapping p" and "0 \<le> i" and "i < int (length (snapPoints p))"
  shows "handleSnapToIndex p i s =
           (Returned,
            s\<lparr>lastPosition := Num (snapPoints p ! nat i),
              currentIndex := i,
              currentDrawerIndex := i,
              effects := effects s @
                [Start (Spring (Num (screenHeight p - snapPoints p ! nat i)))]\<rparr>)"
  using assms
  by (simp add: handleSnapToIndex_def checkIfAvailable_def js_index_def emit_def)

theorem snapToIndex_accepts_witness:
  "enableSnapping example_props \<and> (0::int) \<le> 2
   \<and> 2 < int (length (snapPoints example_props))
   \<and> handleSnapToIndex example_props 2 (initial example_props) =
       (Returned,
        \<lparr>modalVisible = False, currentDrawerIndex = 2, lastPosition = Num 500,
         currentIndex = 2, keyboardTriggerSource = None,
         effects = [Start (Spring (Num 300))]\<rparr>)"
proof -
  have h1: "enableSnapping example_props"
    and h2: "(0::int) \<le> 2"
    and h3: "2 < int (length (snapPoints example_props))"
    by (simp_all add: example_props_def)
  show ?thesis
    using h1 h2 h3 snapToIndex_accepts [OF h1 h2 h3, of "initial example_props"]
    by (simp add: example_props_def initial_def)
qed

subsection \<open>\<^verbatim>\<open>open\<close> and \<^verbatim>\<open>close\<close>\<close>

text \<open>
  C3. For every height argument, given or not, \<^verbatim>\<open>open\<close> makes the drawer visible.
  With snapping enabled the argument is ignored: the last position becomes
  \<open>snapPoints[initialIndex]\<close> and the timing animation that is started targets
  \<open>screenHeight - snapPoints[initialIndex]\<close>; with snap points \<open>[100, 300, 500]\<close> and
  initial index 1 the target is \<open>screenHeight - 300\<close>. With snapping disabled the last
  position is the argument, or \<^verbatim>\<open>initialHeight\<close> when there is none, and the target is
  \<open>screenHeight\<close> minus that.
\<close>

theorem open_targets_initial_snap_point:
  "handleIsOpen (handleOpen p h s)
   \<and> (enableSnapping p \<longrightarrow>
        handleOpen p h s =
          s\<lparr>lastPosition := js_index (snapPoints p) (initialIndex p),
            modalVisible := True,
            effects := effects s @
              [Start (Timing (js_sub (Num (screenHeight p))
                                (js_index (snapPoints p) (initialIndex p)))
                        EaseOutBack (openDuration p) OpenCompletion)]\<rparr>)
   \<and> (enableSnapping p \<and> snapPoints p = [100, 300, 500] \<and> initialIndex p = 1 \<longrightarrow>
        lastPosition (handleOpen p h s) = Num 300
        \<and> started (effects (handleOpen p h s)) =
            started (effects s) @
              [Timing (Num (screenHeight p - 300)) EaseOutBack (openDuration p) OpenCompletion])
   \<and> (\<not> enableSnapping p \<longrightarrow>
        handleOpen p h s =
          s\<lparr>lastPosition := Num (case h of None \<Rightarrow> initialHeight p | Some x \<Rightarrow> x),
            modalVisible := True,
            effects := effects s @
              [Start (Timing (Num (screenHeight p
                                    - (case h of None \<Rightarrow> initialHeight p | Some x \<Rightarrow> x)))
                        EaseOutBack (openDuration p) OpenCompletion)]\<rparr>)"
  by (simp add: handleOpen_def handleIsOpen_def emit_def js_index_def started_append Let_def)

theorem open_targets_initial_snap_point_witness:
  "enableSnapping example_props \<and> snapPoints example_props = [100, 300, 500]
   \<and> initialIndex example_props = 1
   \<and> lastPosition (handleOpen example_props (Some 650) (initial example_props)) = Num 300
   \<and> started (effects (handleOpen example_props (Some 650) (initial example_props))) =
       [Timing (Num 500) EaseOutBack 300 OpenCompletion]
   \<and> \<not> enableSnapping snapping_off_props
   \<and> lastPosition (handleOpen snapping_off_props (Some 650) (initial snapping_off_props))
       = Num 650
   \<and> lastPosition (handleOpen snapping_off_props None (initial snapping_off_props))
       = Num 420"
  using open_targets_initial_snap_point
          [of example_props "Some 650" "initial example_props"]
        open_targets_initial_snap_point
          [of snapping_off_props "Some 650" "initial snapping_off_props"]
        open_targets_initial_snap_point
          [of snapping_off_props None "initial snapping_off_props"]
  by (simp add: example_defs)

text \<open>
  C4. When the animation started by \<^verbatim>\<open>close\<close> completes, the effects of the two steps
  are the start of a timing animation towards \<open>screenHeight\<close> (fully hidden) followed by
  the call of \<^verbatim>\<open>onClose\<close>, when the caller gave one; the drawer is not visible, so
  \<^verbatim>\<open>isOpen\<close> returns false. Of the two cells that hold the current index, only the
  ref \<^verbatim>\<open>currentIndex\<close> is set to 0: the rendered index \<^verbatim>\<open>currentDrawerIndex\<close>, which
  \<^verbatim>\<open>snapToIndex\<close> sets together with the ref, keeps the value it had. After
  \<^verbatim>\<open>snapToIndex(2)\<close> and a completed \<^verbatim>\<open>close\<close> the ref is 0 and the rendered index
  is 2.
\<close>

theorem close_resets_ref_only:
  "closeCompletion p (handleClose p s) =
     s\<lparr>modalVisible := False,
       currentIndex := 0,
       effects := effects s @
         [Start (Timing (Num (screenHeight p)) EaseInEase (closeDuration p) CloseCompletion)] @
         (case onClose p of None \<Rightarrow> [] | Some cb \<Rightarrow> [Invoke cb])\<rparr>
   \<and> handleIsOpen (closeCompletion p (handleClose p s)) = False
   \<and> currentIndex (closeCompletion p (handleClose p s)) = 0
   \<and> currentDrawerIndex (closeCompletion p (handleClose p s)) = currentDrawerIndex s
   \<and> (\<forall>cb. onClose p = Some cb \<longrightarrow>
         last (effects (closeCompletion p (handleClose p s))) = Invoke cb)"
  by (simp add: closeCompletion_def handleClose_def handleIsOpen_def emit_def
           split: option.split)

theorem close_resets_ref_only_witness:
  "onClose example_props = Some 1
   \<and> handleSnapToIndex example_props 2 (mount example_props) =
       (Returned,
        \<lparr>modalVisible = True, currentDrawerIndex = 2, lastPosition = Num 500,
         currentIndex = 2, keyboardTriggerSource = None,
         effects = [Start (Timing (Num 500) EaseOutBack 300 OpenCompletion),
                    Start (Spring (Num 300))]\<rparr>)
   \<and> closeCompletion example_props
         (handleClose example_props
            (snd (handleSnapToIndex example_props 2 (mount example_props)))) =
       \<lparr>modalVisible = False, currentDrawerIndex = 2, lastPosition = Num 500,
        currentIndex = 0, keyboardTriggerSource = None,
        effects = [Start (Timing (Num 500) EaseOutBack 300 OpenCompletion),
                   Start (Spring (Num 300)),
                   Start (Timing (Num 800) EaseInEase 200 CloseCompletion),
                   Invoke 1]\<rparr>
   \<and> currentDrawerIndex
         (closeCompletion example_props
            (handleClose example_props
               (snd (handleSnapToIndex example_props 2 (mount example_props))))) \<noteq> 0"
  using close_resets_ref_only
          [of example_props "snd (handleSnapToIndex example_props 2 (mount example_props))"]
  by (simp add: example_defs handleSnapToIndex_def checkIfAvailable_def)

subsection \<open>\<^verbatim>\<open>snapToPosition\<close>\<close>

text \<open>
  C5. For every position and every \<^verbatim>\<open>config\<close>, \<^verbatim>\<open>snapToPosition\<close> on a drawer that is
  not visible returns with one effect, the warning: no animation is started and no field
  of the state changes, the last position included. The handler has no \<^verbatim>\<open>throw\<close>, so
  in the model it has no error result at all.
\<close>

theorem snapToPosition_hidden_warns:
  assumes "\<not> modalVisible s"
  shows "handleSnapToPosition p position config s =
           s\<lparr>effects := effects s @
               [ConsoleWarn ''snapToPosition can be used only when bottom drawer is opened'']\<rparr>
         \<and> started (effects (handleSnapToPosition p position config s)) = started (effects s)
         \<and> lastPosition (handleSnapToPosition p position config s) = lastPosition s"
  using assms by (simp add: handleSnapToPosition_def emit_def started_append)

theorem snapToPosition_hidden_warns_witness:
  "\<not> modalVisible (initial example_props)
   \<and> handleSnapToPosition example_props 250 None (initial example_props) =
       \<lparr>modalVisible = False, currentDrawerIndex = 1, lastPosition = Num 420,
        currentIndex = 1, keyboardTriggerSource = None,
        effects =
          [ConsoleWarn ''snapToPosition can be used only when bottom drawer is opened'']\<rparr>"
proof -
  have h: "\<not> modalVisible (initial example_props)"
    by (simp add: initial_def)
  show ?thesis
    using h snapToPosition_hidden_warns [OF h, of example_props 250 None]
    by (simp add: initial_def example_props_def)
qed

text \<open>
  C6. For every position, \<^verbatim>\<open>snapToPosition\<close> on a visible drawer starts a spring
  animation towards \<open>screenHeight - position\<close>. It sets the last position to the
  position when \<^verbatim>\<open>resetLastPosition\<close> is true, which is also the default when the
  configuration or the field is absent; when \<^verbatim>\<open>resetLastPosition\<close> is false the last
  position is left as it was.
\<close>

theorem snapToPosition_visible:
  assumes "modalVisible s"
  shows "(config = None \<or> config = Some \<lparr>resetLastPosition = None\<rparr>
            \<or> config = Some \<lparr>resetLastPosition = Some True\<rparr> \<longrightarrow>
          handleSnapToPosition p position config s =
            s\<lparr>lastPosition := Num position,
              effects := effects s @ [Start (Spring (Num (screenHeight p - position)))]\<rparr>)
         \<and> (config = Some \<lparr>resetLastPosition = Some False\<rparr> \<longrightarrow>
          handleSnapToPosition p position config s =
            s\<lparr>effects := effects s @ [Start (Spring (Num (screenHeight p - position)))]\<rparr>
          \<and> lastPosition (handleSnapToPosition p position config s) = lastPosition s)"
  using assms by (auto simp add: handleSnapToPosition_def emit_def)

theorem snapToPosition_visible_witness:
  "modalVisible (mount example_props)
   \<and> handleSnapToPosition example_props 250 None (mount example_props) =
       \<lparr>modalVisible = True, currentDrawerIndex = 1, lastPosition = Num 250,
        currentIndex = 1, keyboardTriggerSource = None,
        effects = [Start (Timing (Num 500) EaseOutBack 300 OpenCompletion),
                   Start (Spring (Num 550))]\<rparr>
   \<and> handleSnapToPosition example_props 250 (Some \<lparr>resetLastPosition = Some False\<rparr>)
         (mount example_props) =
       \<lparr>modalVisible = True, currentDrawerIndex = 1, lastPosition = Num 300,
        currentIndex = 1, keyboardTriggerSource = None,
        effects = [Start (Timing (Num 500) EaseOutBack 300 OpenCompletion),
                   Start (Spring (Num 550))]\<rparr>"
proof -
  have h: "modalVisible (mount example_props)"
    by (simp add: example_defs)
  show ?thesis
    using h
      snapToPosition_visible [OF h, of None example_props 250]
      snapToPosition_visible [OF h, of "Some \<lparr>resetLastPosition = Some False\<rparr>" example_props 250]
    by (simp add: example_defs)
qed

subsection \<open>The keyboard\<close>

text \<open>
  C7, as the code has it. With the keyboard open and the trigger source external, the
  current index becomes 0 provided index 0 is available (snapping enabled and at least
  one snap point); with the source internal it becomes 1 provided index 1 is available;
  with no trigger source recorded nothing happens.
\<close>

theorem keyboard_snap_when_available:
  assumes "keyboardOpen"
  shows "(keyboardTriggerSource s = Some External \<and> checkIfAvailable p 0 \<longrightarrow>
            fst (keyboardSnapEffect p keyboardOpen s) = Returned
            \<and> currentIndex (snd (keyboardSnapEffect p keyboardOpen s)) = 0
            \<and> currentDrawerIndex (snd (keyboardSnapEffect p keyboardOpen s)) = 0
            \<and> keyboardSnapEffect p keyboardOpen s = handleSnapToIndex p 0 s)
         \<and> (keyboardTriggerSource s = Some Internal \<and> checkIfAvailable p 1 \<longrightarrow>
            fst (keyboardSnapEffect p keyboardOpen s) = Returned
            \<and> currentIndex (snd (keyboardSnapEffect p keyboardOpen s)) = 1
            \<and> currentDrawerIndex (snd (keyboardSnapEffect p keyboardOpen s)) = 1
            \<and> keyboardSnapEffect p keyboardOpen s = handleSnapToIndex p 1 s)
         \<and> (keyboardTriggerSource s = None \<longrightarrow>
            keyboardSnapEffect p keyboardOpen s = (Returned, s))"
  using assms by (simp add: keyboardSnapEffect_def handleSnapToIndex_def emit_def)

theorem keyboard_snap_when_available_witness:
  "keyboardTriggerSource (onKeyboardChange True (mount example_props)) = Some External
   \<and> checkIfAvailable example_props 0
   \<and> currentIndex (snd (keyboardSnapEffect example_props True
                          (onKeyboardChange True (mount example_props)))) = 0
   \<and> keyboardTriggerSource ((mount example_props)\<lparr>keyboardTriggerSource := Some Internal\<rparr>)
       = Some Internal
   \<and> checkIfAvailable example_props 1
   \<and> currentIndex (snd (keyboardSnapEffect example_props True
                          ((mount example_props)\<lparr>keyboardTriggerSource := Some Internal\<rparr>))) = 1
   \<and> keyboardTriggerSource (mount example_props) = None
   \<and> keyboardSnapEffect example_props True (mount example_props)
       = (Returned, mount example_props)"
  using
    keyboard_snap_when_available
      [of True "onKeyboardChange True (mount example_props)" example_props]
    keyboard_snap_when_available
      [of True "(mount example_props)\<lparr>keyboardTriggerSource := Some Internal\<rparr>" example_props]
    keyboard_snap_when_available [of True "mount example_props" example_props]
  by (simp add: example_defs checkIfAvailable_def onKeyboardChange_def
        findActiveInputInContent_def keyboardSnapEffect_def handleSnapToIndex_def)

text \<open>
  C7 as stated fails: with snapping disabled and initial index 1, the keyboard opens, the
  trigger source recorded is external, and the effect throws; the current index is
  still 1.
\<close>

theorem keyboard_snap_counterexample:
  "keyboardTriggerSource (onKeyboardChange True (mount snapping_off_props)) = Some External
   \<and> keyboardSnapEffect snapping_off_props True
         (onKeyboardChange True (mount snapping_off_props)) =
       (Threw (Error ''Provided index is out of range of snapPoints!''),
        onKeyboardChange True (mount snapping_off_props))
   \<and> currentIndex (snd (keyboardSnapEffect snapping_off_props True
                          (onKeyboardChange True (mount snapping_off_props)))) = 1
   \<and> currentIndex (snd (keyboardSnapEffect snapping_off_props True
                          (onKeyboardChange True (mount snapping_off_props)))) \<noteq> 0"
  by (simp add: example_defs keyboardSnapEffect_def handleSnapToIndex_def
        checkIfAvailable_def onKeyboardChange_def findActiveInputInContent_def)

text \<open>
  C8. \<^verbatim>\<open>findActiveInputInContent\<close> returns false in every state. So when the keyboard
  shows, the trigger source recorded is external, whatever the state, and never
  internal; when the keyboard hides, the trigger source is cleared. Nothing else in the
  state changes.
\<close>

theorem keyboard_source_always_external:
  "findActiveInputInContent s = False
   \<and> onKeyboardChange True s = s\<lparr>keyboardTriggerSource := Some External\<rparr>
   \<and> keyboardTriggerSource (onKeyboardChange isOpen s) \<noteq> Some Internal
   \<and> onKeyboardChange False s = s\<lparr>keyboardTriggerSource := None\<rparr>"
  by (simp add: onKeyboardChange_def findActiveInputInContent_def)

theorem keyboard_source_always_external_witness:
  "keyboardTriggerSource (onKeyboardChange True (mount example_props)) = Some External
   \<and> keyboardTriggerSource
       (onKeyboardChange False (onKeyboardChange True (mount example_props))) = None"
  using keyboard_source_always_external [of "mount example_props" True]
        keyboard_source_always_external
          [of "onKeyboardChange True (mount example_props)" False]
  by simp

subsection \<open>The drag gesture\<close>

text \<open>
  C9, as the code has it. A move whose delta is smaller than minus the safe offset
  (upward) snaps to the index above the current one when that index is available. A
  move whose delta is larger than the safe offset (downward) snaps to the index below
  when that index is available, provided the safe offset is non-negative. A move never
  throws and never snaps to an index that is not available; with a non-negative safe
  offset, a delta beyond the threshold towards an unavailable index changes nothing. A
  release, in every configuration, starts a spring animation towards
  \<open>screenHeight - lastPosition\<close>, with the last position as it is at that moment, and
  changes nothing else.
\<close>

theorem pan_gesture:
  "(dy < - safeTopOffset p \<and> checkIfAvailable p (currentIndex s + 1) \<longrightarrow>
      onPanResponderMove p dy s = handleSnapToIndex p (currentIndex s + 1) s
      \<and> currentIndex (snd (onPanResponderMove p dy s)) = currentIndex s + 1
      \<and> currentDrawerIndex (snd (onPanResponderMove p dy s)) = currentIndex s + 1
      \<and> lastPosition (snd (onPanResponderMove p dy s)) =
          Num (snapPoints p ! nat (currentIndex s + 1)))
   \<and> (0 \<le> safeTopOffset p \<and> safeTopOffset p < dy
        \<and> checkIfAvailable p (currentIndex s - 1) \<longrightarrow>
      onPanResponderMove p dy s = handleSnapToIndex p (currentIndex s - 1) s
      \<and> currentIndex (snd (onPanResponderMove p dy s)) = currentIndex s - 1
      \<and> currentDrawerIndex (snd (onPanResponderMove p dy s)) = currentIndex s - 1
      \<and> lastPosition (snd (onPanResponderMove p dy s)) =
          Num (snapPoints p ! nat (currentIndex s - 1)))
   \<and> fst (onPanResponderMove p dy s) = Returned
   \<and> (\<not> checkIfAvailable p (currentIndex s + 1) \<longrightarrow>
        currentIndex (snd (onPanResponderMove p dy s)) \<noteq> currentIndex s + 1)
   \<and> (\<not> checkIfAvailable p (currentIndex s - 1) \<longrightarrow>
        currentIndex (snd (onPanResponderMove p dy s)) \<noteq> currentIndex s - 1)
   \<and> (0 \<le> safeTopOffset p \<and> dy < - safeTopOffset p
        \<and> \<not> checkIfAvailable p (currentIndex s + 1) \<longrightarrow>
      onPanResponderMove p dy s = (Returned, s))
   \<and> (0 \<le> safeTopOffset p \<and> safeTopOffset p < dy
        \<and> \<not> checkIfAvailable p (currentIndex s - 1) \<longrightarrow>
      onPanResponderMove p dy s = (Returned, s))
   \<and> onPanResponderRelease p s =
       s\<lparr>effects := effects s @
           [Start (Spring (js_sub (Num (screenHeight p)) (lastPosition s)))]\<rparr>"
proof -
  have down: "0 \<le> safeTopOffset p \<Longrightarrow> safeTopOffset p < dy \<Longrightarrow> \<not> dy < - safeTopOffset p"
    by arith
  have up: "0 \<le> safeTopOffset p \<Longrightarrow> dy < - safeTopOffset p \<Longrightarrow> \<not> safeTopOffset p < dy"
    by arith
  have snap: "checkIfAvailable p i \<Longrightarrow>
      handleSnapToIndex p i s =
        (Returned,
         s\<lparr>lastPosition := Num (snapPoints p ! nat i), currentIndex := i,
           currentDrawerIndex := i,
           effects := effects s @
             [Start (Spring (Num (screenHeight p - snapPoints p ! nat i)))]\<rparr>)" for i
    by (simp add: handleSnapToIndex_def checkIfAvailable_def js_index_def emit_def
          split: if_splits)
  have upward: "dy < - safeTopOffset p \<and> checkIfAvailable p (currentIndex s + 1) \<longrightarrow>
      onPanResponderMove p dy s = handleSnapToIndex p (currentIndex s + 1) s
      \<and> currentIndex (snd (onPanResponderMove p dy s)) = currentIndex s + 1
      \<and> currentDrawerIndex (snd (onPanResponderMove p dy s)) = currentIndex s + 1
      \<and> lastPosition (snd (onPanResponderMove p dy s)) =
          Num (snapPoints p ! nat (currentIndex s + 1))"
    by (simp add: onPanResponderMove_def snap)
  have downward: "0 \<le> safeTopOffset p \<and> safeTopOffset p < dy
        \<and> checkIfAvailable p (currentIndex s - 1) \<longrightarrow>
      onPanResponderMove p dy s = handleSnapToIndex p (currentIndex s - 1) s
      \<and> currentIndex (snd (onPanResponderMove p dy s)) = currentIndex s - 1
      \<and> currentDrawerIndex (snd (onPanResponderMove p dy s)) = currentIndex s - 1
      \<and> lastPosition (snd (onPanResponderMove p dy s)) =
          Num (snapPoints p ! nat (currentIndex s - 1))"
    using down by (simp add: onPanResponderMove_def snap)
  have returns: "fst (onPanResponderMove p dy s) = Returned"
    by (simp add: onPanResponderMove_def snap)
  have not_up: "\<not> checkIfAvailable p (currentIndex s + 1) \<longrightarrow>
      currentIndex (snd (onPanResponderMove p dy s)) \<noteq> currentIndex s + 1"
    by (simp add: onPanResponderMove_def snap)
  have not_down: "\<not> checkIfAvailable p (currentIndex s - 1) \<longrightarrow>
      currentIndex (snd (onPanResponderMove p dy s)) \<noteq> currentIndex s - 1"
    by (simp add: onPanResponderMove_def snap)
  have idle_up: "0 \<le> safeTopOffset p \<and> dy < - safeTopOffset p
        \<and> \<not> checkIfAvailable p (currentIndex s + 1) \<longrightarrow>
      onPanResponderMove p dy s = (Returned, s)"
    using up by (simp add: onPanResponderMove_def)
  have idle_down: "0 \<le> safeTopOffset p \<and> safeTopOffset p < dy
        \<and> \<not> checkIfAvailable p (currentIndex s - 1) \<longrightarrow>
      onPanResponderMove p dy s = (Returned, s)"
    using down by (simp add: onPanResponderMove_def)
  have release: "onPanResponderRelease p s =
       s\<lparr>effects := effects s @
           [Start (Spring (js_sub (Num (screenHeight p)) (lastPosition s)))]\<rparr>"
    by (simp add: onPanResponderRelease_def emit_def)
  from upward downward returns not_up not_down idle_up idle_down release
  show ?thesis by blast
qed

theorem pan_gesture_witness:
  "0 \<le> safeTopOffset example_props
   \<and> safeTopOffset example_props < 60
   \<and> checkIfAvailable example_props (currentIndex (mount example_props) - 1)
   \<and> onPanResponderMove example_props 60 (mount example_props) =
       (Returned,
        \<lparr>modalVisible = True, currentDrawerIndex = 0, lastPosition = Num 100,
         currentIndex = 0, keyboardTriggerSource = None,
         effects = [Start (Timing (Num 500) EaseOutBack 300 OpenCompletion),
                    Start (Spring (Num 700))]\<rparr>)
   \<and> - 60 < - safeTopOffset example_props
   \<and> checkIfAvailable example_props (currentIndex (mount example_props) + 1)
   \<and> currentIndex (snd (onPanResponderMove example_props (- 60) (mount example_props))) = 2
   \<and> currentDrawerIndex
         (snd (onPanResponderMove example_props (- 60) (mount example_props))) = 2
   \<and> \<not> checkIfAvailable example_props
         (currentIndex (snd (onPanResponderMove example_props 60 (mount example_props))) - 1)
   \<and> onPanResponderMove example_props 60
         (snd (onPanResponderMove example_props 60 (mount example_props))) =
       (Returned, snd (onPanResponderMove example_props 60 (mount example_props)))
   \<and> \<not> checkIfAvailable example_props
         (currentIndex (snd (onPanResponderMove example_props (- 60)
                               (mount example_props))) + 1)
   \<and> onPanResponderMove example_props (- 60)
         (snd (onPanResponderMove example_props (- 60) (mount example_props))) =
       (Returned, snd (onPanResponderMove example_props (- 60) (mount example_props)))
   \<and> - 10 < - safeTopOffset negative_offset_props
   \<and> checkIfAvailable negative_offset_props (currentIndex (mount negative_offset_props) + 1)
   \<and> currentIndex (snd (onPanResponderMove negative_offset_props (- 10)
                          (mount negative_offset_props))) = 2
   \<and> onPanResponderRelease negative_offset_props (mount negative_offset_props) =
       \<lparr>modalVisible = True, currentDrawerIndex = 1, lastPosition = Num 300,
        currentIndex = 1, keyboardTriggerSource = None,
        effects = [Start (Timing (Num 500) EaseOutBack 300 OpenCompletion),
                   Start (Spring (Num 500))]\<rparr>
   \<and> onPanResponderRelease example_props
         (snd (onPanResponderMove example_props 60 (mount example_props))) =
       \<lparr>modalVisible = True, currentDrawerIndex = 0, lastPosition = Num 100,
        currentIndex = 0, keyboardTriggerSource = None,
        effects = [Start (Timing (Num 500) EaseOutBack 300 OpenCompletion),
                   Start (Spring (Num 700)), Start (Spring (Num 700))]\<rparr>"
  using
    pan_gesture [of 60 example_props "mount example_props"]
    pan_gesture [of "- 60" example_props "mount example_props"]
    pan_gesture [of 60 example_props
      "snd (onPanResponderMove example_props 60 (mount example_props))"]
    pan_gesture [of "- 60" example_props
      "snd (onPanResponderMove example_props (- 60) (mount example_props))"]
    pan_gesture [of "- 10" negative_offset_props "mount negative_offset_props"]
  by (simp add: example_defs checkIfAvailable_def onPanResponderMove_def
        onPanResponderRelease_def handleSnapToIndex_def)

text \<open>
  C9 as stated fails when the safe offset is negative: with safe offset \<open>-10\<close>, current
  index 1 and both neighbours available, a downward delta of 5 is beyond the threshold,
  yet the move snaps to index 2, the one above, because the upward test comes first and
  also holds.
\<close>

theorem pan_gesture_counterexample:
  "safeTopOffset negative_offset_props < 5
   \<and> currentIndex (mount negative_offset_props) = 1
   \<and> checkIfAvailable negative_offset_props (currentIndex (mount negative_offset_props) - 1)
   \<and> currentIndex (snd (onPanResponderMove negative_offset_props 5
                          (mount negative_offset_props))) = 2
   \<and> currentIndex (snd (onPanResponderMove negative_offset_props 5
                          (mount negative_offset_props)))
       \<noteq> currentIndex (mount negative_offset_props) - 1"
  by (simp add: example_defs checkIfAvailable_def onPanResponderMove_def
        handleSnapToIndex_def)

subsection \<open>The initial index is not checked\<close>

text \<open>
  C10. With snapping enabled, \<^verbatim>\<open>open\<close> reads \<open>snapPoints[initialIndex]\<close> whatever the
  initial index is: it never fails and the last position is the result of that read. The
  read yields a number, and the target of the animation is a number, exactly when
  \<open>0 \<le> initialIndex < length snapPoints\<close>; otherwise the read yields
  \<^verbatim>\<open>undefined\<close> and the target is \<^verbatim>\<open>NaN\<close>. There is a configuration with
  snapping enabled where this happens.
\<close>

theorem open_does_not_check_initial_index:
  "(enableSnapping p \<longrightarrow>
      lastPosition (handleOpen p h s) = js_index (snapPoints p) (initialIndex p)
      \<and> last (started (effects (handleOpen p h s))) =
          Timing (js_sub (Num (screenHeight p)) (js_index (snapPoints p) (initialIndex p)))
            EaseOutBack (openDuration p) OpenCompletion
      \<and> ((\<exists>v. lastPosition (handleOpen p h s) = Num v)
           \<longleftrightarrow> 0 \<le> initialIndex p \<and> initialIndex p < int (length (snapPoints p)))
      \<and> ((\<exists>v. toValue (last (started (effects (handleOpen p h s)))) = Num v)
           \<longleftrightarrow> 0 \<le> initialIndex p \<and> initialIndex p < int (length (snapPoints p)))
      \<and> (\<not> (0 \<le> initialIndex p \<and> initialIndex p < int (length (snapPoints p))) \<longrightarrow>
           lastPosition (handleOpen p h s) = Undefined
           \<and> toValue (last (started (effects (handleOpen p h s)))) = NaN))
   \<and> (\<exists>q. enableSnapping q
          \<and> \<not> (0 \<le> initialIndex q \<and> initialIndex q < int (length (snapPoints q)))
          \<and> lastPosition (handleOpen q h (initial q)) = Undefined
          \<and> toValue (last (started (effects (handleOpen q h (initial q))))) = NaN)"
proof -
  have general: "enableSnapping p \<Longrightarrow>
      handleOpen p h s =
        s\<lparr>lastPosition := js_index (snapPoints p) (initialIndex p),
          modalVisible := True,
          effects := effects s @
            [Start (Timing (js_sub (Num (screenHeight p))
                              (js_index (snapPoints p) (initialIndex p)))
                      EaseOutBack (openDuration p) OpenCompletion)]\<rparr>" for p s
    by (simp add: handleOpen_def emit_def Let_def)
  have first: "enableSnapping p \<longrightarrow>
      lastPosition (handleOpen p h s) = js_index (snapPoints p) (initialIndex p)
      \<and> last (started (effects (handleOpen p h s))) =
          Timing (js_sub (Num (screenHeight p)) (js_index (snapPoints p) (initialIndex p)))
            EaseOutBack (openDuration p) OpenCompletion
      \<and> ((\<exists>v. lastPosition (handleOpen p h s) = Num v)
           \<longleftrightarrow> 0 \<le> initialIndex p \<and> initialIndex p < int (length (snapPoints p)))
      \<and> ((\<exists>v. toValue (last (started (effects (handleOpen p h s)))) = Num v)
           \<longleftrightarrow> 0 \<le> initialIndex p \<and> initialIndex p < int (length (snapPoints p)))
      \<and> (\<not> (0 \<le> initialIndex p \<and> initialIndex p < int (length (snapPoints p))) \<longrightarrow>
           lastPosition (handleOpen p h s) = Undefined
           \<and> toValue (last (started (effects (handleOpen p h s)))) = NaN)"
    by (auto simp add: general started_append js_index_def)
  have "enableSnapping overshoot_props
          \<and> \<not> (0 \<le> initialIndex overshoot_props
                 \<and> initialIndex overshoot_props < int (length (snapPoints overshoot_props)))
          \<and> lastPosition (handleOpen overshoot_props h (initial overshoot_props)) = Undefined
          \<and> toValue (last (started (effects (handleOpen overshoot_props h
                                               (initial overshoot_props))))) = NaN"
    by (simp add: general started_append js_index_def overshoot_props_def example_props_def
          initial_def)
  then have second: "\<exists>q. enableSnapping q
          \<and> \<not> (0 \<le> initialIndex q \<and> initialIndex q < int (length (snapPoints q)))
          \<and> lastPosition (handleOpen q h (initial q)) = Undefined
          \<and> toValue (last (started (effects (handleOpen q h (initial q))))) = NaN"
    by blast
  from first second show ?thesis by blast
qed

theorem open_does_not_check_initial_index_witness:
  "enableSnapping overshoot_props
   \<and> \<not> (0 \<le> initialIndex overshoot_props
          \<and> initialIndex overshoot_props < int (length (snapPoints overshoot_props)))
   \<and> handleOpen overshoot_props (Some 650) (initial overshoot_props) =
       \<lparr>modalVisible = True, currentDrawerIndex = 3, lastPosition = Undefined,
        currentIndex = 3, keyboardTriggerSource = None,
        effects = [Start (Timing NaN EaseOutBack 300 OpenCompletion)]\<rparr>
   \<and> enableSnapping example_props
   \<and> 0 \<le> initialIndex example_props
   \<and> initialIndex example_props < int (length (snapPoints example_props))
   \<and> toValue (last (started (effects (handleOpen example_props (Some 650)
                                        (initial example_props))))) = Num 500"
  using
    open_does_not_check_initial_index [of overshoot_props "Some 650" "initial overshoot_props"]
    open_does_not_check_initial_index [of example_props "Some 650" "initial example_props"]
  by (simp add: example_defs)

end
